theory Spec2Isabelle
  imports Main "HOL-Library.Sublist"
begin

section \<open>Python strings\<close>

text \<open>
  A Python \<open>str\<close> is a sequence of code points. The model is \<open>string\<close>, one \<open>char\<close> per
  code point, which covers the code points below 256. The character classes below are
  the ones the source uses: the regular-expression classes \<open>[A-Za-z]\<close> and \<open>[0-9]\<close>
  (literal ASCII ranges), \<open>str.isspace\<close> as \<open>str.strip()\<close> applies it, and the case
  mappings of \<open>str.lower()\<close> and \<open>str.upper()\<close>.
\<close>

definition in_range :: "nat \<Rightarrow> nat \<Rightarrow> char \<Rightarrow> bool" where
  "in_range lo hi c = (lo \<le> of_char c \<and> (of_char c :: nat) \<le> hi)"

definition is_letter :: "char \<Rightarrow> bool" where
  "is_letter c = (in_range 65 90 c \<or> in_range 97 122 c)"

definition is_digit :: "char \<Rightarrow> bool" where
  "is_digit c = in_range 48 57 c"

text \<open>
  \<open>str.isspace\<close> below 256: TAB, LF, VT, FF, CR, the separators FS, GS, RS, US, the space,
  NEL (133) and the no-break space (160).
\<close>

definition is_space :: "char \<Rightarrow> bool" where
  "is_space c = (in_range 9 13 c \<or> in_range 28 32 c \<or> of_char c = (133::nat) \<or> of_char c = (160::nat))"

text \<open>
  \<open>str.lower()\<close>: the ASCII capitals and the Latin-1 capitals (192 to 222 without the
  multiplication sign 215) move up by 32; every other code point below 256 is kept.
\<close>

definition lower_char :: "char \<Rightarrow> char" where
  "lower_char c =
     (if in_range 65 90 c \<or> (in_range 192 222 c \<and> of_char c \<noteq> (215::nat))
      then char_of (of_char c + (32::nat)) else c)"

definition str_lower :: "string \<Rightarrow> string" where
  "str_lower s = map lower_char s"

text \<open>
  \<open>str.upper()\<close> is applied by the source to \<open>issue_no\<close> only, which is text matched by
  \<open>[A-Za-z]+-[0-9]+\<close>; on the small ASCII letters it moves down by 32. The same holds for
  the Latin-1 small letters 224 to 254 without the division sign 247. (The three code
  points below 256 whose capital lies outside that range, 181, 223 and 255, are kept as
  they are; no issue number contains them.)
\<close>

definition upper_char :: "char \<Rightarrow> char" where
  "upper_char c =
     (if in_range 97 122 c \<or> (in_range 224 254 c \<and> of_char c \<noteq> (247::nat))
      then char_of (of_char c - (32::nat)) else c)"

definition str_upper :: "string \<Rightarrow> string" where
  "str_upper s = map upper_char s"

text \<open>\<open>str.strip()\<close> without argument: whitespace is removed at both ends.\<close>

definition str_strip :: "string \<Rightarrow> string" where
  "str_strip s = rev (dropWhile is_space (rev (dropWhile is_space s)))"

text \<open>
  \<open>s.split(sep)\<close> for a one-character separator: the pieces between the separators, always
  at least one piece, empty pieces kept.
\<close>

fun str_split :: "char \<Rightarrow> string \<Rightarrow> string list" where
  "str_split sep [] = [[]]"
| "str_split sep (c # cs) =
     (if c = sep then [] # str_split sep cs
      else (case str_split sep cs of
              [] \<Rightarrow> [[c]]
            | p # ps \<Rightarrow> (c # p) # ps))"

text \<open>\<open>sep.join(xs)\<close>.\<close>

fun str_join :: "string \<Rightarrow> string list \<Rightarrow> string" where
  "str_join sep [] = []"
| "str_join sep [x] = x"
| "str_join sep (x # y # ys) = x @ sep @ str_join sep (y # ys)"

text \<open>
  \<open>repr\<close> of a string that contains neither quote nor backslash nor control character:
  the text between single quotes. The skip prefixes are such strings.
\<close>

definition str_repr :: "string \<Rightarrow> string" where
  "str_repr s = [CHR 0x27] @ s @ [CHR 0x27]"

text \<open>
  \<open>str(x)\<close> of a set of such strings, as an f-string inserts it: the members in the order
  in which the set iterates, which Python leaves open (string hashes differ from run to
  run). The order is therefore an input of the model: \<open>order\<close> lists the members as the
  set yields them.
\<close>

definition set_str :: "string list \<Rightarrow> string" where
  "set_str order = ''{'' @ str_join '', '' (map str_repr order) @ ''}''"

text \<open>An f-string field whose value may be \<open>None\<close>.\<close>

fun fmt_opt :: "string option \<Rightarrow> string" where
  "fmt_opt None = ''None''"
| "fmt_opt (Some s) = s"

section \<open>Text files\<close>

text \<open>
  \<open>open(fp, "r", encoding="utf-8")\<close> opens the file in text mode with universal newlines:
  \<open>read()\<close> hands over the text of the file with every line ending, be it CR LF, a lone CR
  or LF, as the one character LF.
\<close>

fun universal_newlines :: "string \<Rightarrow> string" where
  "universal_newlines [] = []"
| "universal_newlines [c] = (if c = CHR 0x0D then [CHR 0x0A] else [c])"
| "universal_newlines (c # d # cs) =
     (if c = CHR 0x0D \<and> d = CHR 0x0A then CHR 0x0A # universal_newlines cs
      else if c = CHR 0x0D then CHR 0x0A # universal_newlines (d # cs)
      else c # universal_newlines (d # cs))"

text \<open>
  \<open>open(fp, "w", encoding="utf-8")\<close> is text mode as well: \<open>write\<close> puts \<open>os.linesep\<close> in the
  place of every LF of the text. \<open>os.linesep\<close> belongs to the platform (LF on POSIX, CR LF
  on Windows), so it is an input of the model.
\<close>

definition write_newlines :: "string \<Rightarrow> string \<Rightarrow> string" where
  "write_newlines linesep s = concat (map (\<lambda>c. if c = CHR 0x0A then linesep else [c]) s)"

section \<open>The two regular expressions\<close>

text \<open>
  \<open>re.search(r"^[A-Za-z]+(?=:)", s)\<close>: without the MULTILINE flag \<open>^\<close> is the start of the
  text, so the search can only succeed at position 0. The greedy \<open>[A-Za-z]+\<close> takes the
  longest run of letters; the look-ahead wants a colon next. A shorter run is followed by
  a letter, so backtracking never helps: there is a match exactly when the longest
  leading run of letters is not empty and a colon follows it, and \<open>match[0]\<close> is that run.
\<close>

definition type_search :: "string \<Rightarrow> string option" where
  "type_search s =
     (let tok = takeWhile is_letter s; rest = dropWhile is_letter s
      in if tok \<noteq> [] \<and> rest \<noteq> [] \<and> hd rest = CHR '':'' then Some tok else None)"

text \<open>
  The same search of the \<open>pre_commit_hooks\<close> variant, \<open>r"^[A-Za-z]+(?=: )"\<close>: the run of
  letters must be followed by a colon and a space.
\<close>

definition pch_type_search :: "string \<Rightarrow> string option" where
  "pch_type_search s =
     (let tok = takeWhile is_letter s; rest = dropWhile is_letter s
      in if tok \<noteq> [] \<and> take 2 rest = '': '' then Some tok else None)"

text \<open>
  The text \<open>[A-Za-z]+-[0-9]+\<close> from its first to its last character: letters, one hyphen,
  digits, and nothing else.
\<close>

definition is_issue_id :: "string \<Rightarrow> bool" where
  "is_issue_id s =
     (let ls = takeWhile is_letter s; rest = dropWhile is_letter s
      in ls \<noteq> [] \<and> rest \<noteq> [] \<and> hd rest = CHR ''-'' \<and> tl rest \<noteq> [] \<and> list_all is_digit (tl rest))"

text \<open>
  \<open>re.search(r"^[A-Za-z]+-[0-9]+$", s)\<close>: \<open>^\<close> is the start of the text; \<open>$\<close>, without the
  MULTILINE flag, is the end of the text or the position just before a newline that ends
  the text. So the search succeeds on an issue id and on an issue id followed by one
  final newline, and \<open>match[0]\<close> is the issue id without that newline.
\<close>

definition issue_search :: "string \<Rightarrow> string option" where
  "issue_search s =
     (if is_issue_id s then Some s
      else if s \<noteq> [] \<and> last s = CHR 0x0A \<and> is_issue_id (butlast s) then Some (butlast s)
      else None)"

section \<open>The Commit object of hooks/format_commit_msg.py\<close>

definition DEFAULT_COMMIT_TYPES :: "string list" where
  "DEFAULT_COMMIT_TYPES =
     [''fix'', ''feat'', ''build'', ''chore'', ''ci'', ''docs'', ''style'', ''refactor'',
      ''perf'', ''test'']"

definition DEFAULT_SKIP_PREFIXES :: "string list" where
  "DEFAULT_SKIP_PREFIXES = [''skip'', ''no-verify'', ''s'']"

text \<open>
  Python raises; the model returns the exception. The source raises \<open>ValueError\<close> with a
  text; indexing a list out of range raises \<open>IndexError\<close>; \<open>re.search\<close> on \<open>None\<close> and
  \<open>f.write(None)\<close> raise \<open>TypeError\<close>.
\<close>

datatype error = ValueError string | IndexError | TypeError

text \<open>
  The fields of \<open>Commit\<close>. \<open>message_file\<close> stands for the file that \<open>message_fp\<close> names and
  holds its text as it is stored, decoded. The fields \<open>_commit_types\<close> and \<open>_skip_prefixes\<close> are set to the two
  default lists in \<open>__init__\<close> and never assigned again; the model reads the constants.
\<close>

record commit =
  message_file :: string
  default_commit_type :: "string option"
  issue_no :: "string option"
  commit_message :: "string option"
  commit_type :: "string option"
  updated_commit_message :: "string option"
  branch_name :: "string option"
  skipped :: bool

text \<open>
  A method runs on the object and changes it in place; it may raise after some of its
  assignments. The model of a method returns the exception, if one was raised, and the
  object as the method left it.
\<close>

type_synonym step = "commit \<Rightarrow> error option \<times> commit"

definition and_then :: "step \<Rightarrow> step \<Rightarrow> step" where
  "and_then f g c = (case f c of (None, c') \<Rightarrow> g c' | (Some e, c') \<Rightarrow> (Some e, c'))"

text \<open>
  \<open>_set_branch_info\<close>. \<open>active\<close> is the name of the repository's active branch, which the
  method asks for when \<open>branch_name\<close> is \<open>None\<close> or empty.
\<close>

definition set_branch_info :: "string \<Rightarrow> step" where
  "set_branch_info active c =
     (let name = (case branch_name c of
                    None \<Rightarrow> active
                  | Some b \<Rightarrow> if b = [] then active else b);
          c1 = c\<lparr>branch_name := Some name\<rparr>;
          branch_name_parts = str_split (CHR ''/'') name
      in if str_lower (hd branch_name_parts) \<notin> set DEFAULT_COMMIT_TYPES then (None, c1)
         else if length branch_name_parts < 2 then (Some IndexError, c1)
         else (case issue_search (branch_name_parts ! 1) of
                 None \<Rightarrow> (Some (ValueError ''Branch name contains a type but no jira issue no.''), c1)
               | Some m \<Rightarrow>
                   (None, c1\<lparr>default_commit_type := Some (str_lower (hd branch_name_parts)),
                              issue_no := Some m\<rparr>)))"

text \<open>
  \<open>Commit(message_fp, branch_name)\<close>: the assignments of \<open>__init__\<close>, then
  \<open>_set_branch_info\<close>. When that raises, no object is returned.
\<close>

definition new_commit :: "string \<Rightarrow> string option \<Rightarrow> commit" where
  "new_commit file branch =
     \<lparr>message_file = file, default_commit_type = None, issue_no = None,
      commit_message = None, commit_type = None, updated_commit_message = None,
      branch_name = branch, skipped = False\<rparr>"

definition Commit :: "string \<Rightarrow> string option \<Rightarrow> string \<Rightarrow> error + commit" where
  "Commit file branch active =
     (case set_branch_info active (new_commit file branch) of
        (Some e, c) \<Rightarrow> Inl e
      | (None, c) \<Rightarrow> Inr c)"

text \<open>\<open>_read_commit_message\<close>: the text of the file, read in text mode.\<close>

definition read_commit_message :: step where
  "read_commit_message c =
     (None, c\<lparr>commit_message := Some (universal_newlines (message_file c))\<rparr>)"

text \<open>
  \<open>_write_commit_message\<close>: opening the file for writing empties it; then the updated
  message is written in text mode. \<open>linesep\<close> is \<open>os.linesep\<close>.
\<close>

definition write_commit_message :: "string \<Rightarrow> step" where
  "write_commit_message linesep c =
     (case updated_commit_message c of
        None \<Rightarrow> (Some TypeError, c\<lparr>message_file := []\<rparr>)
      | Some m \<Rightarrow> (None, c\<lparr>message_file := write_newlines linesep m\<rparr>))"

definition unresolved_text :: "string list \<Rightarrow> string option \<Rightarrow> string \<Rightarrow> string" where
  "unresolved_text order branch msg =
     ''Commit type could not be determined from the branch name '' @ [CHR 0x27] @ fmt_opt branch
     @ [CHR 0x27] @ '' or the commit message '' @ [CHR 0x27] @ str_strip msg @ [CHR 0x27]
     @ ''. Start the commit message with one of '' @ set_str order @ '' to skip this check.''"

definition disallowed_text :: "string \<Rightarrow> string" where
  "disallowed_text tok =
     ''Commit type '' @ [CHR 0x27] @ str_lower tok @ [CHR 0x27]
     @ '' is not allowed according to conventional commit.''"

text \<open>
  \<open>_extract_type_from_commit_message\<close>. \<open>order\<close> is the order in which the set
  \<open>{s+':' for s in self._skip_prefixes}\<close> iterates when the error text is built.
\<close>

definition extract_type_from_commit_message :: "string list \<Rightarrow> step" where
  "extract_type_from_commit_message order c =
     (case commit_message c of
        None \<Rightarrow> (Some TypeError, c)
      | Some msg \<Rightarrow>
          (case type_search msg of
             None \<Rightarrow>
               (case default_commit_type c of
                  None \<Rightarrow> (Some (ValueError (unresolved_text order (branch_name c) msg)), c)
                | Some d \<Rightarrow> (None, c\<lparr>commit_type := Some d\<rparr>))
           | Some tok \<Rightarrow>
               if str_lower tok \<in> set (DEFAULT_SKIP_PREFIXES @ DEFAULT_COMMIT_TYPES)
               then (None, c\<lparr>commit_type := Some tok,
                              commit_message := Some (str_strip (drop (length tok + 1) msg))\<rparr>)
               else (Some (ValueError (disallowed_text tok)), c)))"

text \<open>
  \<open>_format_commit_message\<close>. The \<open>print\<close> of the extracted values writes to the standard
  output only and is left out.
\<close>

definition format_commit_message :: step where
  "format_commit_message c =
     (case commit_type c of
        None \<Rightarrow> (Some (ValueError ''Either commit_type of issue_no could not be determined.''), c)
      | Some t \<Rightarrow>
          if t \<in> set DEFAULT_SKIP_PREFIXES
          then (None, c\<lparr>updated_commit_message := commit_message c\<rparr>)
          else (case issue_no c of
                  None \<Rightarrow>
                    (Some (ValueError ''Either commit_type of issue_no could not be determined.''), c)
                | Some i \<Rightarrow>
                    (None, c\<lparr>updated_commit_message :=
                                 Some (str_upper i @ ''('' @ str_lower t @ ''): ''
                                       @ fmt_opt (commit_message c))\<rparr>)))"

definition format_message :: "string list \<Rightarrow> string \<Rightarrow> step" where
  "format_message order linesep =
     and_then read_commit_message
       (and_then (extract_type_from_commit_message order)
          (and_then format_commit_message (write_commit_message linesep)))"

section \<open>The type extraction of pre_commit_hooks/format_commit_msg.py\<close>

text \<open>
  The second \<open>Commit\<close> class has five fields; its extraction step searches with
  \<open>r"^[A-Za-z]+(?=: )"\<close> and cuts the type, the colon and the space off with a slice.
\<close>

record pch_commit =
  pch_message_file :: string
  pch_default_commit_type :: "string option"
  pch_issue_no :: "string option"
  pch_commit_message :: "string option"
  pch_commit_type :: "string option"

definition pch_extract_type_from_commit_message ::
  "pch_commit \<Rightarrow> error option \<times> pch_commit" where
  "pch_extract_type_from_commit_message c =
     (case pch_commit_message c of
        None \<Rightarrow> (Some TypeError, c)
      | Some msg \<Rightarrow>
          (case pch_type_search msg of
             None \<Rightarrow>
               (case pch_default_commit_type c of
                  None \<Rightarrow>
                    (Some (ValueError
                       ''Commit type could not be determined from the branch name or the commit message''),
                     c)
                | Some d \<Rightarrow> (None, c\<lparr>pch_commit_type := Some d\<rparr>))
           | Some tok \<Rightarrow>
               if str_lower tok \<in> set (DEFAULT_SKIP_PREFIXES @ DEFAULT_COMMIT_TYPES)
               then (None, c\<lparr>pch_commit_type := Some tok,
                              pch_commit_message := Some (drop (length tok + 2) msg)\<rparr>)
               else (Some (ValueError
                       (''commit type '' @ [CHR 0x27] @ str_lower tok @ [CHR 0x27]
                        @ '' is not allowed according to conventional commit'')),
                     c)))"

section \<open>Facts about the string operations\<close>

lemma str_split_not_Nil: "str_split sep s \<noteq> []"
  by (induction s) (auto split: list.splits)

lemma str_split_no_sep: "sep \<notin> set t \<Longrightarrow> str_split sep t = [t]"
  by (induction t) auto

lemma str_split_first: "sep \<notin> set t \<Longrightarrow> str_split sep (t @ sep # rest) = t # str_split sep rest"
  by (induction t) auto

lemma commit_type_is_lower: "x \<in> set DEFAULT_COMMIT_TYPES \<Longrightarrow> str_lower x = x"
  unfolding DEFAULT_COMMIT_TYPES_def
  by (auto simp: str_lower_def lower_char_def in_range_def)

lemma skip_prefix_is_lower: "x \<in> set DEFAULT_SKIP_PREFIXES \<Longrightarrow> str_lower x = x"
  unfolding DEFAULT_SKIP_PREFIXES_def
  by (auto simp: str_lower_def lower_char_def in_range_def)

lemma commit_type_not_skip: "x \<in> set DEFAULT_COMMIT_TYPES \<Longrightarrow> x \<notin> set DEFAULT_SKIP_PREFIXES"
  unfolding DEFAULT_COMMIT_TYPES_def DEFAULT_SKIP_PREFIXES_def by auto

lemma lower_commit_type_not_skip:
  assumes "str_lower t \<in> set DEFAULT_COMMIT_TYPES"
  shows "t \<notin> set DEFAULT_SKIP_PREFIXES"
proof
  assume "t \<in> set DEFAULT_SKIP_PREFIXES"
  then have "str_lower t \<in> set DEFAULT_SKIP_PREFIXES" by (simp add: skip_prefix_is_lower)
  with assms show False using commit_type_not_skip by blast
qed

lemma type_search_Some_iff:
  "type_search s = Some t \<longleftrightarrow> t \<noteq> [] \<and> list_all is_letter t \<and> (\<exists>r. s = t @ CHR '':'' # r)"
proof
  assume h: "type_search s = Some t"
  then have t: "t = takeWhile is_letter s" and ne: "t \<noteq> []"
    and r: "dropWhile is_letter s \<noteq> []" "hd (dropWhile is_letter s) = CHR '':''"
    by (auto simp: type_search_def Let_def split: if_splits)
  from r obtain r' where "dropWhile is_letter s = CHR '':'' # r'"
    by (cases "dropWhile is_letter s") auto
  then have "s = t @ CHR '':'' # r'"
    using takeWhile_dropWhile_id[of is_letter s] t by simp
  moreover have "list_all is_letter t"
    using t by (auto simp: list_all_iff dest: set_takeWhileD)
  ultimately show "t \<noteq> [] \<and> list_all is_letter t \<and> (\<exists>r. s = t @ CHR '':'' # r)"
    using ne by blast
next
  assume "t \<noteq> [] \<and> list_all is_letter t \<and> (\<exists>r. s = t @ CHR '':'' # r)"
  then obtain r where ne: "t \<noteq> []" and l: "\<forall>x\<in>set t. is_letter x" and s: "s = t @ CHR '':'' # r"
    by (auto simp: list_all_iff)
  have nl: "\<not> is_letter (CHR '':'')" by (simp add: is_letter_def in_range_def)
  have "takeWhile is_letter s = t" "dropWhile is_letter s = CHR '':'' # r"
    using l nl s by simp_all
  then show "type_search s = Some t"
    using ne by (simp add: type_search_def)
qed

lemma str_strip_parts:
  "\<exists>a b. s = a @ str_strip s @ b \<and> list_all is_space a \<and> list_all is_space b"
proof -
  let ?a = "takeWhile is_space s"
  let ?m = "dropWhile is_space s"
  let ?b = "rev (takeWhile is_space (rev ?m))"
  have "rev ?m = takeWhile is_space (rev ?m) @ dropWhile is_space (rev ?m)" by simp
  then have "?m = str_strip s @ ?b"
    unfolding str_strip_def by (metis rev_append rev_rev_ident)
  then have "s = ?a @ str_strip s @ ?b"
    by (metis takeWhile_dropWhile_id)
  moreover have "list_all is_space ?a" "list_all is_space ?b"
    by (auto simp: list_all_iff dest: set_takeWhileD)
  ultimately show ?thesis by blast
qed

lemma str_strip_ends:
  "str_strip s \<noteq> [] \<Longrightarrow> \<not> is_space (hd (str_strip s)) \<and> \<not> is_space (last (str_strip s))"
proof -
  assume ne: "str_strip s \<noteq> []"
  let ?m = "dropWhile is_space s"
  let ?d = "dropWhile is_space (rev ?m)"
  have d: "?d \<noteq> []" using ne by (simp add: str_strip_def)
  then have "\<not> is_space (hd ?d)" by (rule hd_dropWhile)
  then have l: "\<not> is_space (last (str_strip s))"
    using d by (simp add: str_strip_def last_rev)
  have m: "?m \<noteq> []"
  proof
    assume "?m = []"
    then have "?d = []" by (simp only: rev.simps dropWhile.simps)
    with d show False by (simp only:)
  qed
  then have hm: "\<not> is_space (hd ?m)" by (rule hd_dropWhile)
  obtain b where "?m = str_strip s @ b"
    by (metis str_strip_def rev_append rev_rev_ident takeWhile_dropWhile_id)
  then have "hd ?m = hd (str_strip s)" using ne by (metis hd_append2)
  with hm l show ?thesis by simp
qed

lemma str_split_two_segments:
  assumes "CHR ''/'' \<notin> set T" and "CHR ''/'' \<notin> set X"
    and "rest = [] \<or> hd rest = CHR ''/''"
  shows "\<exists>more. str_split (CHR ''/'') (T @ ''/'' @ X @ rest) = T # X # more"
proof (cases rest)
  case Nil
  then show ?thesis
    using assms(1,2) by (simp add: str_split_first str_split_no_sep)
next
  case (Cons r rs)
  with assms(3) have "rest = CHR ''/'' # rs" by simp
  then show ?thesis
    using assms(1,2) by (simp add: str_split_first)
qed

section \<open>Facts about the error text\<close>

lemma sublist_str_join: "x \<in> set xs \<Longrightarrow> sublist x (str_join sep xs)"
proof (induction sep xs rule: str_join.induct)
  case (1 sep)
  then show ?case by simp
next
  case (2 sep y)
  then show ?case by simp
next
  case (3 sep y z zs)
  show ?case
  proof (cases "x = y")
    case True
    then show ?thesis by simp
  next
    case False
    with 3 have "sublist x (str_join sep (z # zs))" by simp
    then have "sublist x ((y @ sep) @ str_join sep (z # zs))"
      by (rule sublist_order.order_trans) (rule sublist_append_leftI)
    then show ?thesis by simp
  qed
qed

lemma unresolved_text_has_branch: "sublist b (unresolved_text order (Some b) msg)"
proof -
  have "\<exists>ps ss. unresolved_text order (Some b) msg = ps @ b @ ss"
    unfolding unresolved_text_def fmt_opt.simps by (metis append.assoc)
  then show ?thesis by (simp add: sublist_def)
qed

lemma unresolved_text_has_message: "sublist (str_strip msg) (unresolved_text order branch msg)"
proof -
  have "\<exists>ps ss. unresolved_text order branch msg = ps @ str_strip msg @ ss"
    unfolding unresolved_text_def by (metis append.assoc)
  then show ?thesis by (simp add: sublist_def)
qed

lemma unresolved_text_has_prefixes:
  assumes "p \<in> set order"
  shows "sublist (str_repr p) (unresolved_text order branch msg)"
proof -
  have "sublist (str_repr p) (str_join '', '' (map str_repr order))"
    using assms by (intro sublist_str_join) simp
  then have "sublist (str_repr p) (set_str order)"
    unfolding set_str_def
    by (rule sublist_order.order_trans) (rule sublist_appendI)
  moreover have "\<exists>ps ss. unresolved_text order branch msg = ps @ set_str order @ ss"
    unfolding unresolved_text_def by (metis append.assoc)
  then have "sublist (set_str order) (unresolved_text order branch msg)"
    by (simp add: sublist_def)
  ultimately show ?thesis by (rule sublist_order.order_trans)
qed

lemma unresolved_text_has_advice:
  "sublist ''Start the commit message with one of '' (unresolved_text order branch msg)"
  "suffix '' to skip this check.'' (unresolved_text order branch msg)"
proof -
  have "\<exists>ps ss. unresolved_text order branch msg
          = ps @ ''Start the commit message with one of '' @ ss"
    unfolding unresolved_text_def
    by (rule exI[of _ "''Commit type could not be determined from the branch name '' @ [CHR 0x27]
        @ fmt_opt branch @ [CHR 0x27] @ '' or the commit message '' @ [CHR 0x27] @ str_strip msg
        @ [CHR 0x27] @ ''. ''"], rule exI[of _ "set_str order @ '' to skip this check.''"]) simp
  then show "sublist ''Start the commit message with one of '' (unresolved_text order branch msg)"
    by (simp add: sublist_def)
  show "suffix '' to skip this check.'' (unresolved_text order branch msg)"
    unfolding unresolved_text_def suffix_def by (metis append.assoc)
qed

section \<open>Facts about the constructor and the pipeline\<close>

lemma is_issue_id_iff:
  "is_issue_id s \<longleftrightarrow>
     (\<exists>l d. s = l @ ''-'' @ d \<and> l \<noteq> [] \<and> d \<noteq> [] \<and> list_all is_letter l \<and> list_all is_digit d)"
proof
  assume h: "is_issue_id s"
  let ?l = "takeWhile is_letter s"
  let ?r = "dropWhile is_letter s"
  from h have l: "?l \<noteq> []" and r: "?r \<noteq> []" "hd ?r = CHR ''-''" "tl ?r \<noteq> []"
    "list_all is_digit (tl ?r)"
    by (simp_all add: is_issue_id_def Let_def)
  from r have "?r = ''-'' @ tl ?r" by (cases ?r) auto
  then have "s = ?l @ ''-'' @ tl ?r" by (metis takeWhile_dropWhile_id)
  moreover have "list_all is_letter ?l" by (auto simp: list_all_iff dest: set_takeWhileD)
  ultimately show "\<exists>l d. s = l @ ''-'' @ d \<and> l \<noteq> [] \<and> d \<noteq> [] \<and> list_all is_letter l \<and> list_all is_digit d"
    using l r by blast
next
  assume "\<exists>l d. s = l @ ''-'' @ d \<and> l \<noteq> [] \<and> d \<noteq> [] \<and> list_all is_letter l \<and> list_all is_digit d"
  then obtain l d where s: "s = l @ CHR ''-'' # d" and ne: "l \<noteq> []" "d \<noteq> []"
    and l: "\<forall>x\<in>set l. is_letter x" and d: "list_all is_digit d"
    by (auto simp: list_all_iff)
  have nl: "\<not> is_letter (CHR ''-'')" by (simp add: is_letter_def in_range_def)
  have "takeWhile is_letter s = l" "dropWhile is_letter s = CHR ''-'' # d"
    using l nl s by simp_all
  then show "is_issue_id s" using ne d by (simp add: is_issue_id_def)
qed

lemma Commit_fields:
  assumes "Commit file branch active = Inr c0"
  shows "message_file c0 = file" "commit_message c0 = None" "commit_type c0 = None"
    "updated_commit_message c0 = None"
    "branch_name c0 = Some (case branch of None \<Rightarrow> active | Some b \<Rightarrow> if b = [] then active else b)"
  using assms
  by (auto simp: Commit_def set_branch_info_def new_commit_def Let_def
      split: if_splits option.splits prod.splits)

lemma Commit_default_type:
  assumes "Commit file branch active = Inr c0" "default_commit_type c0 = Some T"
  shows "T \<in> set DEFAULT_COMMIT_TYPES"
  using assms
  by (auto simp: Commit_def set_branch_info_def new_commit_def Let_def
      split: if_splits option.splits prod.splits)

lemma Commit_no_default:
  assumes "Commit file branch active = Inr c0" "default_commit_type c0 = None"
  shows "issue_no c0 = None"
  using assms
  by (auto simp: Commit_def set_branch_info_def new_commit_def Let_def
      split: if_splits option.splits prod.splits)

lemma universal_newlines_id: "CHR 0x0D \<notin> set s \<Longrightarrow> universal_newlines s = s"
  by (induction s rule: universal_newlines.induct) auto

lemma write_newlines_id: "CHR 0x0A \<notin> set s \<Longrightarrow> write_newlines linesep s = s"
  by (induction s) (auto simp: write_newlines_def)

lemma write_newlines_posix: "write_newlines [CHR 0x0A] s = s"
  by (induction s) (auto simp: write_newlines_def)

lemma issue_search_None_iff:
  "issue_search X = None \<longleftrightarrow>
     \<not> is_issue_id X \<and> \<not> (X \<noteq> [] \<and> last X = CHR 0x0A \<and> is_issue_id (butlast X))"
  by (simp add: issue_search_def)

lemma format_message_steps:
  "format_message order linesep c =
     (case extract_type_from_commit_message order
             (c\<lparr>commit_message := Some (universal_newlines (message_file c))\<rparr>) of
        (Some e, c1) \<Rightarrow> (Some e, c1)
      | (None, c1) \<Rightarrow>
          (case format_commit_message c1 of
             (Some e, c2) \<Rightarrow> (Some e, c2)
           | (None, c2) \<Rightarrow> write_commit_message linesep c2))"
  by (simp add: format_message_def and_then_def read_commit_message_def split: prod.splits option.splits)


section \<open>Skip prefixes\<close>

text \<open>
  C1. The claim: a leading token that is a skip prefix in any casing (\<open>Skip:\<close>, \<open>SKIP:\<close>)
  makes the message pass through, stripped, with no issue id needed. The extraction step
  does compare the lowercased token with the vocabulary, but \<open>_format_commit_message\<close>
  compares the token as written with the skip prefixes. On branch \<open>develop\<close> the message
  \<open>Skip: my message\<close> is refused for its missing issue number, and on a branch with an
  issue number the skip prefix is formatted as if it were a commit type.
\<close>

theorem capitalised_skip_is_not_skipped:
  "Commit ''Skip: my message'' (Some ''develop'') active
     = Inr (new_commit ''Skip: my message'' (Some ''develop''))
   \<and> format_message order linesep (new_commit ''Skip: my message'' (Some ''develop''))
     = (Some (ValueError ''Either commit_type of issue_no could not be determined.''),
        (new_commit ''Skip: my message'' (Some ''develop''))
          \<lparr>commit_message := Some ''my message'', commit_type := Some ''Skip''\<rparr>)
   \<and> Commit ''Skip: my message'' (Some ''feat/ABC-123/my_feat'') active
     = Inr ((new_commit ''Skip: my message'' (Some ''feat/ABC-123/my_feat''))
              \<lparr>default_commit_type := Some ''feat'', issue_no := Some ''ABC-123''\<rparr>)
   \<and> format_message order linesep
         ((new_commit ''Skip: my message'' (Some ''feat/ABC-123/my_feat''))
            \<lparr>default_commit_type := Some ''feat'', issue_no := Some ''ABC-123''\<rparr>)
     = (None,
        (new_commit ''ABC-123(skip): my message'' (Some ''feat/ABC-123/my_feat''))
          \<lparr>default_commit_type := Some ''feat'', issue_no := Some ''ABC-123'',
           commit_message := Some ''my message'', commit_type := Some ''Skip'',
           updated_commit_message := Some ''ABC-123(skip): my message''\<rparr>)"
  by code_simp

text \<open>
  C3. The claim: a message that starts with \<open>no-verify:\<close> bypasses the check. The search
  \<open>^[A-Za-z]+(?=:)\<close> reads letters only, so at \<open>no-verify:\<close> it stops at the hyphen and
  finds no type at all. On branch \<open>develop\<close> the message is refused with the very error
  whose text offers \<open>no-verify:\<close> as a way out; on a branch with a type and an issue
  number the whole message, prefix included, is formatted.
\<close>

theorem no_verify_prefix_is_not_found:
  "type_search ''no-verify: my message'' = None
   \<and> format_message order linesep (new_commit ''no-verify: my message'' (Some ''develop''))
     = (Some (ValueError
               (unresolved_text order (Some ''develop'') ''no-verify: my message'')),
        (new_commit ''no-verify: my message'' (Some ''develop''))
          \<lparr>commit_message := Some ''no-verify: my message''\<rparr>)
   \<and> unresolved_text [''skip:'', ''no-verify:'', ''s:''] (Some ''develop'')
         ''no-verify: my message''
     = ''Commit type could not be determined from the branch name '' @ [CHR 0x27]
       @ ''develop'' @ [CHR 0x27] @ '' or the commit message '' @ [CHR 0x27]
       @ ''no-verify: my message'' @ [CHR 0x27]
       @ ''. Start the commit message with one of {'' @ [CHR 0x27] @ ''skip:'' @ [CHR 0x27]
       @ '', '' @ [CHR 0x27] @ ''no-verify:'' @ [CHR 0x27] @ '', '' @ [CHR 0x27] @ ''s:''
       @ [CHR 0x27] @ ''} to skip this check.''
   \<and> message_file
         (snd (format_message order linesep
            ((new_commit ''no-verify: my message'' (Some ''feat/ABC-123/my_feat''))
               \<lparr>default_commit_type := Some ''feat'', issue_no := Some ''ABC-123''\<rparr>)))
     = ''ABC-123(feat): no-verify: my message''"
  by code_simp

section \<open>Branch names\<close>

text \<open>
  C2. The claim: a branch name that is a commit type and nothing else (\<open>feat\<close>) is refused
  with the ValueError "Branch name contains a type but no jira issue no.". The method
  reads \<open>branch_name_parts[1]\<close> without looking at the length of the list, so the one-piece
  list raises \<open>IndexError\<close>, and no object is built.
\<close>

theorem bare_type_branch_raises_IndexError:
  "str_split (CHR ''/'') ''feat'' = [''feat'']
   \<and> set_branch_info active (new_commit file (Some ''feat''))
     = (Some IndexError, new_commit file (Some ''feat''))
   \<and> Commit file (Some ''feat'') active = Inl IndexError"
  by code_simp

section \<open>The two extraction steps compared\<close>

text \<open>
  C9. The extraction steps of the two source files disagree. On \<open>feat:msg\<close>, colon without
  a space, the \<open>hooks\<close> step finds the type \<open>feat\<close> and leaves \<open>msg\<close>, the \<open>pre_commit_hooks\<close>
  step finds no type and, without a default, raises. On a message with whitespace at its
  end both find the type, and only the \<open>hooks\<close> step removes that whitespace.
\<close>

theorem extraction_variants_differ:
  "extract_type_from_commit_message order
       ((new_commit ''feat:msg'' None)\<lparr>commit_message := Some ''feat:msg''\<rparr>)
     = (None, (new_commit ''feat:msg'' None)
                \<lparr>commit_message := Some ''msg'', commit_type := Some ''feat''\<rparr>)
   \<and> pch_extract_type_from_commit_message
       \<lparr>pch_message_file = ''feat:msg'', pch_default_commit_type = None, pch_issue_no = None,
        pch_commit_message = Some ''feat:msg'', pch_commit_type = None\<rparr>
     = (Some (ValueError
         ''Commit type could not be determined from the branch name or the commit message''),
        \<lparr>pch_message_file = ''feat:msg'', pch_default_commit_type = None, pch_issue_no = None,
         pch_commit_message = Some ''feat:msg'', pch_commit_type = None\<rparr>)
   \<and> commit_message (snd (extract_type_from_commit_message order
       ((new_commit [] None)\<lparr>commit_message := Some (''fix: my message '' @ [CHR 0x0A])\<rparr>)))
     = Some ''my message''
   \<and> pch_commit_message (snd (pch_extract_type_from_commit_message
       \<lparr>pch_message_file = [], pch_default_commit_type = None, pch_issue_no = None,
        pch_commit_message = Some (''fix: my message '' @ [CHR 0x0A]), pch_commit_type = None\<rparr>))
     = Some (''my message '' @ [CHR 0x0A])"
  by code_simp

section \<open>Formatting\<close>

text \<open>
  C5. When the commit type is not one of the skip prefixes and the issue number is known,
  \<open>_format_commit_message\<close> raises nothing and sets the updated message to the issue
  number in capitals, the commit type in small letters between parentheses, a colon and
  a space, and the commit message as the extraction step left it. This holds for every
  casing of the type and of the issue number.
\<close>

theorem formatted_message_shape:
  assumes "commit_type c = Some t"
    and "t \<notin> set DEFAULT_SKIP_PREFIXES"
    and "issue_no c = Some i"
    and "commit_message c = Some m"
  shows "format_commit_message c
           = (None, c\<lparr>updated_commit_message :=
                         Some (str_upper i @ ''('' @ str_lower t @ ''): '' @ m)\<rparr>)"
  using assms by (simp add: format_commit_message_def)

text \<open>The type \<open>Fix\<close> and the issue number \<open>abc-456\<close> give \<open>ABC-456(fix): \<close>.\<close>

theorem formatted_message_shape_witness:
  "format_commit_message
     ((new_commit [] None)\<lparr>commit_type := Some ''Fix'', issue_no := Some ''abc-456'',
        commit_message := Some ''my message here''\<rparr>)
   = (None, (new_commit [] None)\<lparr>commit_type := Some ''Fix'', issue_no := Some ''abc-456'',
        commit_message := Some ''my message here'',
        updated_commit_message := Some ''ABC-456(fix): my message here''\<rparr>)"
proof -
  let ?c = "(new_commit [] None)\<lparr>commit_type := Some ''Fix'', issue_no := Some ''abc-456'',
        commit_message := Some ''my message here''\<rparr>"
  have h1: "commit_type ?c = Some ''Fix''" by simp
  have h2: "''Fix'' \<notin> set DEFAULT_SKIP_PREFIXES" by (simp add: DEFAULT_SKIP_PREFIXES_def)
  have h3: "issue_no ?c = Some ''abc-456''" by simp
  have h4: "commit_message ?c = Some ''my message here''" by simp
  have u: "str_upper ''abc-456'' @ ''('' @ str_lower ''Fix'' @ ''): '' @ ''my message here''
             = ''ABC-456(fix): my message here''" by code_simp
  show ?thesis
    using formatted_message_shape[OF h1 h2 h3 h4] unfolding u by (simp add: new_commit_def)
qed

text \<open>
  C8. On a branch that gives neither a default type nor an issue number, a message whose
  leading token is a commit type in any casing is refused: the type is taken from the
  message, the issue number is missing, and \<open>_format_commit_message\<close> raises
  "Either commit_type of issue_no could not be determined.". The updated message stays
  unset and the message file keeps its text. \<open>raw\<close> is the message as it is read from the
  file.
\<close>

theorem type_without_issue_is_refused:
  assumes "Commit file branch active = Inr c0"
    and "default_commit_type c0 = None"
    and "issue_no c0 = None"
    and "universal_newlines file = raw"
    and "type_search raw = Some tok"
    and "str_lower tok \<in> set DEFAULT_COMMIT_TYPES"
  shows "format_message order linesep c0
           = (Some (ValueError ''Either commit_type of issue_no could not be determined.''),
              c0\<lparr>commit_message := Some (str_strip (drop (length tok + 1) raw)),
                 commit_type := Some tok\<rparr>)
         \<and> updated_commit_message (snd (format_message order linesep c0)) = None
         \<and> message_file (snd (format_message order linesep c0)) = file"
proof -
  define s where "s = str_strip (drop (length tok + 1) raw)"
  have f: "message_file c0 = file" "updated_commit_message c0 = None"
    using Commit_fields[OF assms(1)] by simp_all
  have ns: "tok \<notin> set DEFAULT_SKIP_PREFIXES"
    using assms(6) by (rule lower_commit_type_not_skip)
  have e: "extract_type_from_commit_message order (c0\<lparr>commit_message := Some raw\<rparr>)
             = (None, c0\<lparr>commit_message := Some s, commit_type := Some tok\<rparr>)"
    using assms(5,6) by (simp add: extract_type_from_commit_message_def s_def)
  have g: "format_commit_message (c0\<lparr>commit_message := Some s, commit_type := Some tok\<rparr>)
           = (Some (ValueError ''Either commit_type of issue_no could not be determined.''),
              c0\<lparr>commit_message := Some s, commit_type := Some tok\<rparr>)"
    using ns assms(3) by (simp add: format_commit_message_def)
  show ?thesis
    unfolding s_def[symmetric] by (simp add: format_message_steps f assms(4) e g)
qed

text \<open>
  Branch \<open>develop\<close> with a file that holds \<open>fix: a\<close>, a carriage return, and \<open>b\<close>: the message
  is read with a newline in the place of the carriage return.
\<close>

theorem type_without_issue_is_refused_witness:
  "format_message [''skip:'', ''no-verify:'', ''s:''] [CHR 0x0A]
       (new_commit (''fix: a'' @ [CHR 0x0D] @ ''b'') (Some ''develop''))
     = (Some (ValueError ''Either commit_type of issue_no could not be determined.''),
        (new_commit (''fix: a'' @ [CHR 0x0D] @ ''b'') (Some ''develop''))
          \<lparr>commit_message := Some (''a'' @ [CHR 0x0A] @ ''b''), commit_type := Some ''fix''\<rparr>)
   \<and> updated_commit_message
         (snd (format_message [''skip:'', ''no-verify:'', ''s:''] [CHR 0x0A]
                 (new_commit (''fix: a'' @ [CHR 0x0D] @ ''b'') (Some ''develop'')))) = None
   \<and> message_file
         (snd (format_message [''skip:'', ''no-verify:'', ''s:''] [CHR 0x0A]
                 (new_commit (''fix: a'' @ [CHR 0x0D] @ ''b'') (Some ''develop''))))
       = ''fix: a'' @ [CHR 0x0D] @ ''b''"
proof -
  let ?file = "''fix: a'' @ [CHR 0x0D] @ ''b''"
  let ?raw = "''fix: a'' @ [CHR 0x0A] @ ''b''"
  let ?c = "new_commit ?file (Some ''develop'')"
  have h1: "Commit ?file (Some ''develop'') ''main'' = Inr ?c" by code_simp
  have h2: "default_commit_type ?c = None" by (simp add: new_commit_def)
  have h3: "issue_no ?c = None" by (simp add: new_commit_def)
  have h4: "universal_newlines ?file = ?raw" by code_simp
  have h5: "type_search ?raw = Some ''fix''" by code_simp
  have h6: "str_lower ''fix'' \<in> set DEFAULT_COMMIT_TYPES" by code_simp
  have s: "str_strip (drop (length ''fix'' + 1) ?raw) = ''a'' @ [CHR 0x0A] @ ''b''"
    by code_simp
  show ?thesis
    using type_without_issue_is_refused[OF h1 h2 h3 h4 h5 h6,
        of "[''skip:'', ''no-verify:'', ''s:'']" "[CHR 0x0A]"]
    unfolding s .
qed

text \<open>
  C10. The branch gives the default type \<open>T\<close> and the issue number \<open>I\<close>, and the message
  \<open>raw\<close>, as it is read from the file, has no leading token of letters with a colon after
  it (the empty message is one). Then the run raises nothing, the commit message stays
  \<open>raw\<close>, and the updated message is the issue number in capitals, \<open>(T): \<close>, and the whole of
  \<open>raw\<close>, nothing trimmed and nothing changed; that text is written to the file.
\<close>

theorem default_type_formats_whole_message:
  assumes "Commit file branch active = Inr c0"
    and "default_commit_type c0 = Some T"
    and "issue_no c0 = Some I"
    and "universal_newlines file = raw"
    and "type_search raw = None"
  shows "format_message order linesep c0
           = (None,
              c0\<lparr>commit_message := Some raw, commit_type := Some T,
                 updated_commit_message := Some (str_upper I @ ''('' @ T @ ''): '' @ raw),
                 message_file := write_newlines linesep (str_upper I @ ''('' @ T @ ''): '' @ raw)\<rparr>)"
proof -
  have f: "message_file c0 = file" using Commit_fields[OF assms(1)] by simp
  have T: "T \<in> set DEFAULT_COMMIT_TYPES" using assms(1,2) by (rule Commit_default_type)
  then have ns: "T \<notin> set DEFAULT_SKIP_PREFIXES" and lw: "str_lower T = T"
    by (simp_all add: commit_type_not_skip commit_type_is_lower)
  have e: "extract_type_from_commit_message order (c0\<lparr>commit_message := Some raw\<rparr>)
             = (None, c0\<lparr>commit_message := Some raw, commit_type := Some T\<rparr>)"
    using assms(2,5) by (simp add: extract_type_from_commit_message_def)
  have g: "format_commit_message (c0\<lparr>commit_message := Some raw, commit_type := Some T\<rparr>)
           = (None, c0\<lparr>commit_message := Some raw, commit_type := Some T,
                 updated_commit_message := Some (str_upper I @ ''('' @ T @ ''): '' @ raw)\<rparr>)"
    using ns lw assms(3) by (simp add: format_commit_message_def)
  show ?thesis
    by (simp add: format_message_steps f assms(4) e g write_commit_message_def)
qed

text \<open>
  Branch \<open>feat/ABC-123/my_feat\<close> with a file that holds \<open>my message\<close>, a carriage return and
  a newline, \<open>body\<close>, and a carriage return, on a platform whose line separator is the
  newline: the file is left with \<open>ABC-123(feat): my message\<close>, a newline, \<open>body\<close>, and a
  newline.
\<close>

theorem default_type_formats_whole_message_witness:
  "format_message [''skip:'', ''no-verify:'', ''s:''] [CHR 0x0A]
       ((new_commit (''my message'' @ [CHR 0x0D, CHR 0x0A] @ ''body'' @ [CHR 0x0D])
           (Some ''feat/ABC-123/my_feat''))
          \<lparr>default_commit_type := Some ''feat'', issue_no := Some ''ABC-123''\<rparr>)
     = (None,
        (new_commit (''my message'' @ [CHR 0x0D, CHR 0x0A] @ ''body'' @ [CHR 0x0D])
           (Some ''feat/ABC-123/my_feat''))
          \<lparr>default_commit_type := Some ''feat'', issue_no := Some ''ABC-123''\<rparr>
          \<lparr>commit_message := Some (''my message'' @ [CHR 0x0A] @ ''body'' @ [CHR 0x0A]),
           commit_type := Some ''feat'',
           updated_commit_message :=
             Some (''ABC-123(feat): my message'' @ [CHR 0x0A] @ ''body'' @ [CHR 0x0A]),
           message_file := ''ABC-123(feat): my message'' @ [CHR 0x0A] @ ''body'' @ [CHR 0x0A]\<rparr>)"
proof -
  let ?file = "''my message'' @ [CHR 0x0D, CHR 0x0A] @ ''body'' @ [CHR 0x0D]"
  let ?raw = "''my message'' @ [CHR 0x0A] @ ''body'' @ [CHR 0x0A]"
  let ?c = "(new_commit ?file (Some ''feat/ABC-123/my_feat''))
             \<lparr>default_commit_type := Some ''feat'', issue_no := Some ''ABC-123''\<rparr>"
  have h1: "Commit ?file (Some ''feat/ABC-123/my_feat'') ''main'' = Inr ?c"
    by code_simp
  have h2: "default_commit_type ?c = Some ''feat''" by simp
  have h3: "issue_no ?c = Some ''ABC-123''" by simp
  have h4: "universal_newlines ?file = ?raw" by code_simp
  have h5: "type_search ?raw = None" by code_simp
  have u: "str_upper ''ABC-123'' @ ''('' @ ''feat'' @ ''): '' @ ?raw
             = ''ABC-123(feat): my message'' @ [CHR 0x0A] @ ''body'' @ [CHR 0x0A]"
    by code_simp
  show ?thesis
    using default_type_formats_whole_message[OF h1 h2 h3 h4 h5,
        of "[''skip:'', ''no-verify:'', ''s:'']" "[CHR 0x0A]"]
    unfolding u write_newlines_posix .
qed

section \<open>Stripping the type from the message\<close>

text \<open>
  C4, as the code has it. When the leading token of the message is in the vocabulary,
  \<open>_extract_type_from_commit_message\<close> cuts the token and the colon off and applies
  \<open>strip()\<close> to what is left: the message is the token, the colon, whitespace, the new
  commit message, and whitespace again. The whitespace after the colon and the whitespace
  at the end of the message are both removed; the characters between them are kept as
  they are, and the new commit message neither starts nor ends with whitespace.
\<close>

theorem stripped_message_is_trimmed_at_both_ends:
  assumes "commit_message c = Some msg"
    and "type_search msg = Some tok"
    and "str_lower tok \<in> set (DEFAULT_SKIP_PREFIXES @ DEFAULT_COMMIT_TYPES)"
  shows "\<exists>ws1 s ws2.
           extract_type_from_commit_message order c
             = (None, c\<lparr>commit_type := Some tok, commit_message := Some s\<rparr>)
           \<and> msg = tok @ '':'' @ ws1 @ s @ ws2
           \<and> list_all is_space ws1 \<and> list_all is_space ws2
           \<and> (s = [] \<or> (\<not> is_space (hd s) \<and> \<not> is_space (last s)))"
proof -
  define rest where "rest = drop (length tok + 1) msg"
  from assms(2) obtain r where "msg = tok @ CHR '':'' # r"
    unfolding type_search_Some_iff by blast
  then have m: "msg = tok @ '':'' @ rest" by (simp add: rest_def)
  obtain a b where ab: "rest = a @ str_strip rest @ b" "list_all is_space a" "list_all is_space b"
    using str_strip_parts[of rest] by blast
  have e: "extract_type_from_commit_message order c
             = (None, c\<lparr>commit_type := Some tok, commit_message := Some (str_strip rest)\<rparr>)"
    using assms by (simp add: extract_type_from_commit_message_def rest_def)
  have "msg = tok @ '':'' @ a @ str_strip rest @ b" using m ab(1) by simp
  moreover have "str_strip rest = [] \<or> (\<not> is_space (hd (str_strip rest)) \<and> \<not> is_space (last (str_strip rest)))"
    using str_strip_ends[of rest] by blast
  ultimately show ?thesis using e ab(2,3) by blast
qed

text \<open>The message \<open>fix:  my message \<close> with a final newline.\<close>

theorem stripped_message_is_trimmed_at_both_ends_witness:
  "\<exists>ws1 s ws2.
     extract_type_from_commit_message [''skip:'', ''no-verify:'', ''s:'']
         ((new_commit [] None)\<lparr>commit_message := Some (''fix:  my message '' @ [CHR 0x0A])\<rparr>)
       = (None, (new_commit [] None)\<lparr>commit_message := Some (''fix:  my message '' @ [CHR 0x0A])\<rparr>
                  \<lparr>commit_type := Some ''fix'', commit_message := Some s\<rparr>)
     \<and> ''fix:  my message '' @ [CHR 0x0A] = ''fix'' @ '':'' @ ws1 @ s @ ws2
     \<and> list_all is_space ws1 \<and> list_all is_space ws2
     \<and> (s = [] \<or> (\<not> is_space (hd s) \<and> \<not> is_space (last s)))"
proof -
  let ?c = "(new_commit [] None)\<lparr>commit_message := Some (''fix:  my message '' @ [CHR 0x0A])\<rparr>"
  have h1: "commit_message ?c = Some (''fix:  my message '' @ [CHR 0x0A])" by simp
  have h2: "type_search (''fix:  my message '' @ [CHR 0x0A]) = Some ''fix''" by code_simp
  have h3: "str_lower ''fix'' \<in> set (DEFAULT_SKIP_PREFIXES @ DEFAULT_COMMIT_TYPES)" by code_simp
  show ?thesis
    by (rule stripped_message_is_trimmed_at_both_ends[OF h1 h2 h3])
qed

text \<open>
  The claim C4 as it was made keeps the whitespace at the end of the message. For
  \<open>fix: my message \<close> followed by a newline, cutting the token, the colon and the whitespace
  after them leaves \<open>my message \<close> and the newline; the code leaves \<open>my message\<close>.
\<close>

theorem trailing_whitespace_is_removed:
  "type_search (''fix: my message '' @ [CHR 0x0A]) = Some ''fix''
   \<and> dropWhile is_space (drop (length ''fix'' + 1) (''fix: my message '' @ [CHR 0x0A]))
       = ''my message '' @ [CHR 0x0A]
   \<and> commit_message
        (snd (extract_type_from_commit_message [''skip:'', ''no-verify:'', ''s:'']
           ((new_commit [] None)\<lparr>commit_message := Some (''fix: my message '' @ [CHR 0x0A])\<rparr>)))
       = Some ''my message''
   \<and> ''my message'' \<noteq> ''my message '' @ [CHR 0x0A]"
  by code_simp

section \<open>No type in the message and none in the branch\<close>

text \<open>
  C6. When the branch gives no default type and the message \<open>raw\<close>, as it is read from the
  file, has no leading token of letters with a colon after it, the run raises a
  \<open>ValueError\<close> in the extraction step, with the commit message read and nothing else
  changed. The text of the error contains the branch name, the commit message with the
  whitespace at its ends removed, and the advice to start the message with one of the
  skip prefixes, each named with its colon, to skip the check. \<open>order\<close> is any order of
  iteration of the set of the three prefixes.
\<close>

theorem unresolved_type_is_reported:
  assumes "Commit file branch active = Inr c0"
    and "default_commit_type c0 = None"
    and "universal_newlines file = raw"
    and "type_search raw = None"
    and "set order = set (map (\<lambda>s. s @ '':'') DEFAULT_SKIP_PREFIXES)"
  shows "\<exists>b report. b = (case branch of None \<Rightarrow> active | Some x \<Rightarrow> if x = [] then active else x)
           \<and> branch_name c0 = Some b
           \<and> format_message order linesep c0
               = (Some (ValueError report), c0\<lparr>commit_message := Some raw\<rparr>)
           \<and> sublist b report
           \<and> sublist (str_strip raw) report
           \<and> sublist ''Start the commit message with one of '' report
           \<and> sublist (str_repr ''skip:'') report
           \<and> sublist (str_repr ''no-verify:'') report
           \<and> sublist (str_repr ''s:'') report
           \<and> suffix '' to skip this check.'' report"
proof -
  define b where "b = (case branch of None \<Rightarrow> active | Some x \<Rightarrow> if x = [] then active else x)"
  define report where "report = unresolved_text order (Some b) raw"
  have f: "message_file c0 = file" and bn: "branch_name c0 = Some b"
    using Commit_fields[OF assms(1)] by (simp_all add: b_def)
  have e: "extract_type_from_commit_message order (c0\<lparr>commit_message := Some raw\<rparr>)
             = (Some (ValueError report), c0\<lparr>commit_message := Some raw\<rparr>)"
    using assms(2,4) bn by (simp add: extract_type_from_commit_message_def report_def)
  have run: "format_message order linesep c0
               = (Some (ValueError report), c0\<lparr>commit_message := Some raw\<rparr>)"
    by (simp add: format_message_steps f assms(3) e)
  have mem: "''skip:'' \<in> set order" "''no-verify:'' \<in> set order" "''s:'' \<in> set order"
    using assms(5) by (simp_all add: DEFAULT_SKIP_PREFIXES_def)
  have "sublist b report" "sublist (str_strip raw) report"
    "sublist ''Start the commit message with one of '' report"
    "suffix '' to skip this check.'' report"
    unfolding report_def
    by (rule unresolved_text_has_branch unresolved_text_has_message unresolved_text_has_advice)+
  moreover have "sublist (str_repr ''skip:'') report" "sublist (str_repr ''no-verify:'') report"
    "sublist (str_repr ''s:'') report"
    unfolding report_def using mem by (simp_all add: unresolved_text_has_prefixes)
  ultimately show ?thesis using bn run b_def by blast
qed

text \<open>
  Branch \<open>develop\<close> with a file that holds a space, \<open>a\<close>, a carriage return, \<open>b\<close>, and a
  newline: the message is read as a space, \<open>a\<close>, a newline, \<open>b\<close>, and a newline, and the
  report names \<open>a\<close>, a newline, \<open>b\<close>.
\<close>

theorem unresolved_type_is_reported_witness:
  "\<exists>b report. b = (case Some ''develop'' of None \<Rightarrow> ''main'' | Some x \<Rightarrow> if x = [] then ''main'' else x)
     \<and> branch_name (new_commit ('' a'' @ [CHR 0x0D] @ ''b'' @ [CHR 0x0A]) (Some ''develop'')) = Some b
     \<and> format_message [''s:'', ''skip:'', ''no-verify:''] [CHR 0x0A]
           (new_commit ('' a'' @ [CHR 0x0D] @ ''b'' @ [CHR 0x0A]) (Some ''develop''))
         = (Some (ValueError report),
            (new_commit ('' a'' @ [CHR 0x0D] @ ''b'' @ [CHR 0x0A]) (Some ''develop''))
              \<lparr>commit_message := Some ('' a'' @ [CHR 0x0A] @ ''b'' @ [CHR 0x0A])\<rparr>)
     \<and> sublist b report
     \<and> sublist (''a'' @ [CHR 0x0A] @ ''b'') report
     \<and> sublist ''Start the commit message with one of '' report
     \<and> sublist (str_repr ''skip:'') report
     \<and> sublist (str_repr ''no-verify:'') report
     \<and> sublist (str_repr ''s:'') report
     \<and> suffix '' to skip this check.'' report"
proof -
  let ?file = "'' a'' @ [CHR 0x0D] @ ''b'' @ [CHR 0x0A]"
  let ?raw = "'' a'' @ [CHR 0x0A] @ ''b'' @ [CHR 0x0A]"
  let ?c = "new_commit ?file (Some ''develop'')"
  have h1: "Commit ?file (Some ''develop'') ''main'' = Inr ?c" by code_simp
  have h2: "default_commit_type ?c = None" by (simp add: new_commit_def)
  have h3: "universal_newlines ?file = ?raw" by code_simp
  have h4: "type_search ?raw = None" by code_simp
  have h5: "set [''s:'', ''skip:'', ''no-verify:'']
              = set (map (\<lambda>s. s @ '':'') DEFAULT_SKIP_PREFIXES)"
    by (auto simp: DEFAULT_SKIP_PREFIXES_def)
  have s: "str_strip ?raw = ''a'' @ [CHR 0x0A] @ ''b''" by code_simp
  show ?thesis
    using unresolved_type_is_reported[OF h1 h2 h3 h4 h5, of "[CHR 0x0A]"]
    unfolding s .
qed

section \<open>A type in the branch and no issue number\<close>

text \<open>
  The search for the issue number on three second pieces of a branch name: an issue
  number, a piece without one, and an issue number with a final newline, before which
  the \<open>$\<close> of the pattern matches as well.
\<close>

lemma issue_search_examples:
  "issue_search ''ABC-123'' = Some ''ABC-123''
   \<and> issue_search ''my_fix'' = None
   \<and> issue_search (''ABC-123'' @ [CHR 0x0A]) = Some ''ABC-123''"
  by code_simp

text \<open>
  C7. The branch name is \<open>T/X\<close> or \<open>T/X/...\<close>, the first piece \<open>T\<close> is a commit type in any
  casing, and the search for the pattern \<open>^[A-Za-z]+-[0-9]+$\<close> finds nothing in the second
  piece \<open>X\<close>. Then \<open>_set_branch_info\<close> raises the \<open>ValueError\<close> "Branch name contains a type but
  no jira issue no." and leaves the object as it was, \<open>default_commit_type\<close> and \<open>issue_no\<close>
  included: neither is set. The constructor returns no object.
\<close>

theorem type_branch_without_issue_is_refused:
  assumes "CHR ''/'' \<notin> set T" and "CHR ''/'' \<notin> set X"
    and "rest = [] \<or> hd rest = CHR ''/''"
    and "str_lower T \<in> set DEFAULT_COMMIT_TYPES"
    and "issue_search X = None"
    and "branch_name c = Some (T @ ''/'' @ X @ rest)"
  shows "set_branch_info active c
           = (Some (ValueError ''Branch name contains a type but no jira issue no.''), c)
         \<and> Commit file (Some (T @ ''/'' @ X @ rest)) active
           = Inl (ValueError ''Branch name contains a type but no jira issue no.'')"
proof -
  obtain more where sp: "str_split (CHR ''/'') (T @ ''/'' @ X @ rest) = T # X # more"
    using str_split_two_segments[OF assms(1-3)] by blast
  have same: "c\<lparr>branch_name := Some (T @ ''/'' @ X @ rest)\<rparr> = c"
    using assms(6) by (cases c) simp
  have step: "set_branch_info active d
           = (Some (ValueError ''Branch name contains a type but no jira issue no.''),
              d\<lparr>branch_name := Some (T @ ''/'' @ X @ rest)\<rparr>)"
    if "branch_name d = Some (T @ ''/'' @ X @ rest)" for d
    using that sp assms(4,5) by (simp add: set_branch_info_def Let_def)
  have "set_branch_info active c
           = (Some (ValueError ''Branch name contains a type but no jira issue no.''), c)"
    using step[OF assms(6)] same by simp
  moreover have "Commit file (Some (T @ ''/'' @ X @ rest)) active
           = Inl (ValueError ''Branch name contains a type but no jira issue no.'')"
    using step[of "new_commit file (Some (T @ ''/'' @ X @ rest))"]
    by (simp add: Commit_def new_commit_def)
  ultimately show ?thesis by simp
qed

text \<open>Branch \<open>fix/my_fix\<close>: the object is left with both fields unset.\<close>

theorem type_branch_without_issue_is_refused_witness:
  "set_branch_info ''main'' (new_commit ''chore: my message here'' (Some ''fix/my_fix''))
     = (Some (ValueError ''Branch name contains a type but no jira issue no.''),
        new_commit ''chore: my message here'' (Some ''fix/my_fix''))
   \<and> default_commit_type (new_commit ''chore: my message here'' (Some ''fix/my_fix'')) = None
   \<and> issue_no (new_commit ''chore: my message here'' (Some ''fix/my_fix'')) = None
   \<and> Commit ''chore: my message here'' (Some ''fix/my_fix'') ''main''
     = Inl (ValueError ''Branch name contains a type but no jira issue no.'')"
proof -
  have h1: "CHR ''/'' \<notin> set ''fix''" by simp
  have h2: "CHR ''/'' \<notin> set ''my_fix''" by simp
  have h3: "([]::string) = [] \<or> hd ([]::string) = CHR ''/''" by simp
  have h4: "str_lower ''fix'' \<in> set DEFAULT_COMMIT_TYPES" by code_simp
  have h5: "issue_search ''my_fix'' = None" by code_simp
  have h6: "branch_name (new_commit ''chore: my message here'' (Some ''fix/my_fix''))
              = Some (''fix'' @ ''/'' @ ''my_fix'' @ [])"
    by (simp add: new_commit_def)
  show ?thesis
    using type_branch_without_issue_is_refused[OF h1 h2 h3 h4 h5 h6,
        of "''main''" "''chore: my message here''"]
    by (simp add: new_commit_def)
qed

end
